theory Spec2Isabelle
  imports Main
begin

section \<open>JSON values and the request body\<close>

text \<open>
  The values a parsed JSON body can hold, with \<open>JUndefined\<close> for what JavaScript
  reads from a property that is absent. Numbers are kept integral: no property
  below looks inside a number.
\<close>

datatype jsval =
    JUndefined
  | JNull
  | JBool bool
  | JNum int
  | JStr string
  | JArr "jsval list"
  | JObj "(string \<times> jsval) list"

text \<open>
  \<open>req.body\<close> after \<open>bodyParser.json()\<close>: an object, read by property name.
  The destructuring \<open>const { username, email, password } = req.body\<close> reads three
  properties; an absent one reads as \<open>undefined\<close>.
\<close>

type_synonym body = "string \<rightharpoonup> jsval"

definition get_prop :: "body \<Rightarrow> string \<Rightarrow> jsval" where
  "get_prop b k = (case b k of None \<Rightarrow> JUndefined | Some v \<Rightarrow> v)"

section \<open>The collaborators of the handler\<close>

text \<open>
  The object literal \<open>{ username, email, password: hashedPassword }\<close> handed to
  \<open>insert\<close>. The first two fields are whatever the body held; the third is the
  string \<open>bcrypt.hash\<close> resolved to.
\<close>

record payload =
  username :: jsval
  email :: jsval
  password :: string

text \<open>
  What the awaited \<open>insert\<close> resolves to and the handler destructures:
  \<open>{ data, error }\<close>. The \<open>error\<close> of the client is \<open>null\<close> or an error object, so
  the test \<open>if (error)\<close> is the test for \<open>Some\<close>.
\<close>

record pg_error =
  message :: string
  code :: string

record insert_result =
  data :: jsval
  error :: "pg_error option"

text \<open>
  Both awaited calls belong to libraries outside the repository, so the handler
  takes them as parameters. Each either resolves (\<open>Inr\<close>) or rejects with an
  exception (\<open>Inl\<close>, the exception's message). \<open>bcrypt.hash\<close> draws a random salt:
  the parameter stands for the call of this request, salt included. The store
  call also returns the store's next state.
\<close>

type_synonym hash_fn = "jsval \<Rightarrow> nat \<Rightarrow> string + string"

type_synonym 'db insert_fn = "payload list \<Rightarrow> 'db \<Rightarrow> (string + insert_result) \<times> 'db"

section \<open>The registration handler\<close>

text \<open>
  A run of the handler is observed through the calls it made to its collaborators
  in order, the responses it sent through \<open>res\<close> in order, the exception its
  promise rejected with (the handler has no \<open>try\<close>), and the store's state.
\<close>

datatype call = HashCall jsval nat | InsertCall "payload list"

text \<open>The calls that went to the store.\<close>

definition is_insert :: "call \<Rightarrow> bool" where
  "is_insert c = (case c of InsertCall _ \<Rightarrow> True | HashCall _ _ \<Rightarrow> False)"

record response =
  status :: nat
  body :: jsval

record 'db run =
  calls :: "call list"
  sent :: "response list"
  raised :: "string option"
  store :: 'db

text \<open>
  \<^verbatim>\<open>
  app.post('/api/register', async (req, res) => {
    const { username, email, password } = req.body;
    const hashedPassword = await bcrypt.hash(password, 10);
    const { data, error } = await supabase
      .from('users')
      .insert([{ username, email, password: hashedPassword }]);
    if (error) return res.status(400).json({ error: error.message });
    res.status(201).json(data);
  });
  \<close>
\<close>

definition register :: "hash_fn \<Rightarrow> 'db insert_fn \<Rightarrow> body \<Rightarrow> 'db \<Rightarrow> 'db run" where
  "register bcrypt_hash insert_users req_body db =
     (let username = get_prop req_body ''username'';
          email = get_prop req_body ''email'';
          password = get_prop req_body ''password''
      in case bcrypt_hash password 10 of
           Inl exn \<Rightarrow>
             \<lparr>calls = [HashCall password 10], sent = [], raised = Some exn, store = db\<rparr>
         | Inr hashedPassword \<Rightarrow>
             (let rows = [\<lparr>username = username, email = email, password = hashedPassword\<rparr>]
              in case insert_users rows db of
                   (Inl exn, db') \<Rightarrow>
                     \<lparr>calls = [HashCall password 10, InsertCall rows], sent = [],
                      raised = Some exn, store = db'\<rparr>
                 | (Inr result, db') \<Rightarrow>
                     (case error result of
                        Some err \<Rightarrow>
                          \<lparr>calls = [HashCall password 10, InsertCall rows],
                           sent = [\<lparr>status = 400, body = JObj [(''error'', JStr (message err))]\<rparr>],
                           raised = None, store = db'\<rparr>
                      | None \<Rightarrow>
                          \<lparr>calls = [HashCall password 10, InsertCall rows],
                           sent = [\<lparr>status = 201, body = data result\<rparr>],
                           raised = None, store = db'\<rparr>)))"

text \<open>The one payload a request leads to once its password hashed to \<open>h\<close>.\<close>

definition payload_of :: "body \<Rightarrow> string \<Rightarrow> payload" where
  "payload_of req_body h =
     \<lparr>username = get_prop req_body ''username'', email = get_prop req_body ''email'',
      password = h\<rparr>"

section \<open>The users table\<close>

text \<open>
  \<^verbatim>\<open>
  CREATE TABLE users (
    id UUID PRIMARY KEY DEFAULT gen_random_uuid(),
    username TEXT UNIQUE NOT NULL,
    email TEXT UNIQUE NOT NULL,
    password TEXT NOT NULL -- store hashed passwords
  );
  \<close>
  A table is the list of its rows in insertion order; it starts empty.
\<close>

record user_row =
  col_id :: string
  col_username :: string
  col_email :: string
  col_password :: string

type_synonym users = "user_row list"

text \<open>
  The value a \<open>TEXT\<close> column receives from a field of the JSON payload. A string is
  stored as it is; \<open>null\<close> is SQL \<open>NULL\<close>, and so is \<open>undefined\<close>, whose key the
  serialisation of the payload drops. Any other value is stored as the text
  \<open>render\<close> gives for it.
\<close>

definition pg_text :: "(jsval \<Rightarrow> string) \<Rightarrow> jsval \<Rightarrow> string option" where
  "pg_text render v =
     (case v of
        JStr s \<Rightarrow> Some s
      | JNull \<Rightarrow> None
      | JUndefined \<Rightarrow> None
      | _ \<Rightarrow> Some (render v))"

definition not_null_violation :: "string \<Rightarrow> pg_error" where
  "not_null_violation c =
     \<lparr>message = ''null value in column \"'' @ c @ ''\" of relation \"users\" violates not-null constraint'',
      code = ''23502''\<rparr>"

definition unique_violation :: "string \<Rightarrow> pg_error" where
  "unique_violation k =
     \<lparr>message = ''duplicate key value violates unique constraint \"'' @ k @ ''\"'',
      code = ''23505''\<rparr>"

text \<open>
  Two refusals of the server that do not come from a declared constraint. A JSON
  string holding U+0000 cannot become a \<open>TEXT\<close> value (code 22P05); strings here
  are the bytes of well-formed UTF-8 text. A value that does not fit a row of the
  B-tree index behind a \<open>UNIQUE\<close> column is refused (code 54000); whether it fits
  depends on how the server compresses it, so \<open>fits\<close> is a parameter. The server's
  messages carry figures that are left out here.
\<close>

definition has_nul :: "string \<Rightarrow> bool" where
  "has_nul s \<longleftrightarrow> CHR 0x00 \<in> set s"

definition json_nul :: "jsval \<Rightarrow> bool" where
  "json_nul v = (case v of JStr s \<Rightarrow> has_nul s | _ \<Rightarrow> False)"

definition untranslatable_character :: pg_error where
  "untranslatable_character =
     \<lparr>message = ''unsupported Unicode escape sequence'', code = ''22P05''\<rparr>"

definition program_limit_exceeded :: "string \<Rightarrow> pg_error" where
  "program_limit_exceeded k =
     \<lparr>message = ''index row size exceeds maximum for index \"'' @ k @ ''\"'',
      code = ''54000''\<rparr>"

text \<open>
  One row through the table: the payload's strings become \<open>TEXT\<close> values, then the
  two \<open>NOT NULL\<close> columns the payload fills, then the primary key on the identifier
  \<open>gen_random_uuid()\<close> drew (\<open>new_id\<close>), then the index of each \<open>UNIQUE\<close> column. The
  row is appended only when nothing refuses it.
\<close>

definition insert_row :: "string \<Rightarrow> (jsval \<Rightarrow> string) \<Rightarrow> (string \<Rightarrow> bool) \<Rightarrow> payload \<Rightarrow> users \<Rightarrow> pg_error + users" where
  "insert_row new_id render fits p tbl =
     (if json_nul (username p) \<or> json_nul (email p) \<or> has_nul (password p)
      then Inl untranslatable_character
      else case pg_text render (username p) of
        None \<Rightarrow> Inl (not_null_violation ''username'')
      | Some u \<Rightarrow>
          (case pg_text render (email p) of
             None \<Rightarrow> Inl (not_null_violation ''email'')
           | Some e \<Rightarrow>
               if new_id \<in> set (map col_id tbl) then Inl (unique_violation ''users_pkey'')
               else if u \<in> set (map col_username tbl) then Inl (unique_violation ''users_username_key'')
               else if \<not> fits u then Inl (program_limit_exceeded ''users_username_key'')
               else if e \<in> set (map col_email tbl) then Inl (unique_violation ''users_email_key'')
               else if \<not> fits e then Inl (program_limit_exceeded ''users_email_key'')
               else Inr (tbl @ [\<lparr>col_id = new_id, col_username = u, col_email = e,
                                  col_password = password p\<rparr>])))"

text \<open>
  The rows of one \<open>INSERT\<close> statement, in order; \<open>gen i\<close> is the identifier drawn
  for the \<open>i\<close>-th of them. The first refusal ends the statement.
\<close>

fun insert_rows :: "(nat \<Rightarrow> string) \<Rightarrow> (jsval \<Rightarrow> string) \<Rightarrow> (string \<Rightarrow> bool) \<Rightarrow> nat \<Rightarrow> payload list \<Rightarrow> users \<Rightarrow> pg_error + users" where
  "insert_rows gen render fits i [] tbl = Inr tbl"
| "insert_rows gen render fits i (p # ps) tbl =
     (case insert_row (gen i) render fits p tbl of
        Inl err \<Rightarrow> Inl err
      | Inr tbl' \<Rightarrow> insert_rows gen render fits (Suc i) ps tbl')"

definition row_json :: "user_row \<Rightarrow> jsval" where
  "row_json r =
     JObj [(''id'', JStr (col_id r)), (''username'', JStr (col_username r)),
           (''email'', JStr (col_email r)), (''password'', JStr (col_password r))]"

text \<open>
  \<open>supabase.from('users').insert(rows)\<close> against this table. A statement that
  is refused leaves the table as it was and comes back as
  \<open>{ data: null, error }\<close>; one that passes comes back with \<open>error: null\<close> and, when
  the client asks for the representation (\<open>representation\<close>), the inserted rows as
  \<open>data\<close>, otherwise \<open>null\<close>.
\<close>

definition users_insert :: "(nat \<Rightarrow> string) \<Rightarrow> (jsval \<Rightarrow> string) \<Rightarrow> (string \<Rightarrow> bool) \<Rightarrow> bool \<Rightarrow> users insert_fn" where
  "users_insert gen render fits representation rows tbl =
     (case insert_rows gen render fits 0 rows tbl of
        Inl err \<Rightarrow> (Inr \<lparr>data = JNull, error = Some err\<rparr>, tbl)
      | Inr tbl' \<Rightarrow>
          (Inr \<lparr>data = (if representation then JArr (map row_json (drop (length tbl) tbl')) else JNull),
                error = None\<rparr>, tbl'))"

text \<open>The uniqueness the table declares: no two rows share a key, a username or an email.\<close>

definition unique_users :: "users \<Rightarrow> bool" where
  "unique_users tbl \<longleftrightarrow>
     distinct (map col_id tbl) \<and> distinct (map col_username tbl) \<and> distinct (map col_email tbl)"

text \<open>
  The tables registration can produce: the empty table, and what any request leaves
  behind, whatever the hash, the identifiers drawn, what the indexes hold and the
  client's settings.
\<close>

inductive reachable :: "users \<Rightarrow> bool" where
  initial: "reachable []"
| registered: "reachable tbl \<Longrightarrow>
     reachable (store (register bcrypt_hash (users_insert gen render fits representation) req_body tbl))"

section \<open>Sample collaborators\<close>

text \<open>
  For running the handler on concrete requests. \<open>typeof\<close> is JavaScript's.
  \<open>sample_hash\<close> keeps the argument check of \<open>bcrypt.hash\<close> (anything but a string
  rejects the promise) and resolves a string to a tagged text in place of the
  digest, built from the salt \<open>salt\<close> of the run. \<open>sample_ids\<close> draws identifiers
  from a tag, and \<open>sample_fits\<close> lets an index hold values of up to 2000 bytes.
\<close>

fun typeof :: "jsval \<Rightarrow> string" where
  "typeof JUndefined = ''undefined''"
| "typeof JNull = ''object''"
| "typeof (JBool _) = ''boolean''"
| "typeof (JNum _) = ''number''"
| "typeof (JStr _) = ''string''"
| "typeof (JArr _) = ''object''"
| "typeof (JObj _) = ''object''"

definition sample_hash :: "string \<Rightarrow> hash_fn" where
  "sample_hash salt s rounds =
     (case s of
        JStr pw \<Rightarrow> Inr (''$2a$10$'' @ salt @ ''.'' @ rev pw)
      | _ \<Rightarrow> Inl (''Illegal arguments: '' @ typeof s @ '', number''))"

definition sample_ids :: "string \<Rightarrow> nat \<Rightarrow> string" where
  "sample_ids tag i = tag @ replicate i CHR ''+''"

definition sample_render :: "jsval \<Rightarrow> string" where
  "sample_render v = typeof v"

definition sample_fits :: "string \<Rightarrow> bool" where
  "sample_fits s \<longleftrightarrow> length s \<le> 2000"

definition alice :: body where
  "alice = [''username'' \<mapsto> JStr ''alice'', ''email'' \<mapsto> JStr ''alice@example.com'',
            ''password'' \<mapsto> JStr ''s3cret'']"

definition alice_row :: user_row where
  "alice_row = \<lparr>col_id = ''a'', col_username = ''alice'', col_email = ''alice@example.com'',
                col_password = ''$2a$10$salt.terc3s''\<rparr>"

definition bob_empty :: body where
  "bob_empty = [''username'' \<mapsto> JStr ''bob'', ''email'' \<mapsto> JStr ''bob@example.com'',
                ''password'' \<mapsto> JStr '''']"

definition bob_row :: user_row where
  "bob_row = \<lparr>col_id = ''b'', col_username = ''bob'', col_email = ''bob@example.com'',
              col_password = ''$2a$10$salt.''\<rparr>"

definition carol :: body where
  "carol = [''username'' \<mapsto> JStr ''carol'', ''email'' \<mapsto> JStr ''alice@example.com'',
            ''password'' \<mapsto> JStr ''pw'']"

section \<open>Unfolding the handler; the sample runs\<close>

lemmas run_simps = register_def Let_def get_prop_def payload_of_def

lemma alice_hash:
  "sample_hash ''salt'' (get_prop alice ''password'') 10 = Inr ''$2a$10$salt.terc3s''"
  by (simp add: sample_hash_def get_prop_def alice_def)

lemma alice_insert:
  "users_insert (sample_ids ''a'') sample_render sample_fits True [payload_of alice ''$2a$10$salt.terc3s''] []
     = (Inr \<lparr>data = JArr [row_json alice_row], error = None\<rparr>, [alice_row])"
  by (simp add: users_insert_def insert_row_def pg_text_def payload_of_def get_prop_def
      json_nul_def has_nul_def sample_fits_def alice_def sample_ids_def alice_row_def)

lemma alice_again:
  "users_insert (sample_ids ''b'') sample_render sample_fits True [payload_of alice ''$2a$10$salt.terc3s''] [alice_row]
     = (Inr \<lparr>data = JNull, error = Some (unique_violation ''users_username_key'')\<rparr>, [alice_row])"
  by (simp add: users_insert_def insert_row_def pg_text_def payload_of_def get_prop_def
      json_nul_def has_nul_def sample_fits_def alice_def sample_ids_def alice_row_def)

section \<open>Responses of the handler\<close>

text \<open>
  C1. When the hash resolves and the store call resolves with \<open>error: null\<close>, the
  handler sends the one response 201 whose body is the \<open>data\<close> of the store's
  result, as the store returned it, and its promise does not reject.
\<close>

theorem register_created:
  assumes "bcrypt_hash (get_prop req_body ''password'') 10 = Inr h"
    and "insert_users [payload_of req_body h] db = (Inr result, db')"
    and "error result = None"
  shows "sent (register bcrypt_hash insert_users req_body db) = [\<lparr>status = 201, body = data result\<rparr>]
    \<and> raised (register bcrypt_hash insert_users req_body db) = None"
  using assms by (simp add: run_simps)

theorem register_created_witness:
  "sent (register (sample_hash ''salt'') (users_insert (sample_ids ''a'') sample_render sample_fits True) alice [])
     = [\<lparr>status = 201, body = JArr [row_json alice_row]\<rparr>]"
  using register_created [where bcrypt_hash = "sample_hash ''salt''" and req_body = alice
      and insert_users = "users_insert (sample_ids ''a'') sample_render sample_fits True" and db = "[]",
      OF alice_hash alice_insert]
  by simp

text \<open>
  C2. When the store call resolves with an error object, whatever its code, the
  handler sends the one response 400 whose body is \<open>{ error: m }\<close> with \<open>m\<close> the
  message of that object.
\<close>

theorem register_store_error:
  assumes "bcrypt_hash (get_prop req_body ''password'') 10 = Inr h"
    and "insert_users [payload_of req_body h] db = (Inr result, db')"
    and "error result = Some err"
  shows "sent (register bcrypt_hash insert_users req_body db)
           = [\<lparr>status = 400, body = JObj [(''error'', JStr (message err))]\<rparr>]
    \<and> raised (register bcrypt_hash insert_users req_body db) = None"
  using assms by (simp add: run_simps)

theorem register_store_error_witness:
  "sent (register (sample_hash ''salt'') (users_insert (sample_ids ''b'') sample_render sample_fits True) alice [alice_row])
     = [\<lparr>status = 400, body = JObj [(''error'',
          JStr ''duplicate key value violates unique constraint \"users_username_key\"'')]\<rparr>]"
  using register_store_error [where bcrypt_hash = "sample_hash ''salt''" and req_body = alice
      and insert_users = "users_insert (sample_ids ''b'') sample_render sample_fits True" and db = "[alice_row]",
      OF alice_hash alice_again]
  by (simp add: unique_violation_def)

text \<open>
  C10. When the hash resolves and the store call resolves, the handler sends
  exactly one response, with status 201 or 400.
\<close>

theorem register_one_response:
  assumes "bcrypt_hash (get_prop req_body ''password'') 10 = Inr h"
    and "fst (insert_users [payload_of req_body h] db) = Inr result"
  shows "\<exists>resp. sent (register bcrypt_hash insert_users req_body db) = [resp]
           \<and> (status resp = 201 \<or> status resp = 400)"
  using assms by (auto simp: run_simps split: prod.splits option.splits)

theorem register_one_response_witness:
  "\<exists>resp. sent (register (sample_hash ''salt'') (users_insert (sample_ids ''a'') sample_render sample_fits True) alice []) = [resp]
           \<and> (status resp = 201 \<or> status resp = 400)"
proof -
  have "fst (users_insert (sample_ids ''a'') sample_render sample_fits True [payload_of alice ''$2a$10$salt.terc3s''] [])
          = Inr \<lparr>data = JArr [row_json alice_row], error = None\<rparr>"
    by (simp add: alice_insert)
  then show ?thesis
    by (rule register_one_response [where bcrypt_hash = "sample_hash ''salt''" and req_body = alice
          and insert_users = "users_insert (sample_ids ''a'') sample_render sample_fits True" and db = "[]",
          OF alice_hash])
qed

text \<open>
  C9. Two request bodies that agree on \<open>username\<close>, \<open>email\<close> and \<open>password\<close> lead,
  with the same collaborators and store, to the same run: the same calls with the
  same insert payload, the same response and the same store.
\<close>

theorem register_ignores_other_fields:
  assumes "\<forall>k \<in> {''username'', ''email'', ''password''}. b1 k = b2 k"
  shows "register bcrypt_hash insert_users b1 db = register bcrypt_hash insert_users b2 db"
  using assms by (simp add: run_simps)

theorem register_ignores_other_fields_witness:
  "register (sample_hash ''salt'') (users_insert (sample_ids ''a'') sample_render sample_fits True)
      (alice(''role'' \<mapsto> JStr ''admin'')) []
   = register (sample_hash ''salt'') (users_insert (sample_ids ''a'') sample_render sample_fits True) alice []"
proof -
  have "\<forall>k \<in> {''username'', ''email'', ''password''}. (alice(''role'' \<mapsto> JStr ''admin'')) k = alice k"
    by simp
  then show ?thesis
    by (rule register_ignores_other_fields)
qed

section \<open>The table under insertion\<close>

lemma insert_row_Inr:
  "insert_row new_id render fits p tbl = Inr tbl' \<Longrightarrow>
     \<exists>u e. pg_text render (username p) = Some u \<and> pg_text render (email p) = Some e \<and>
       new_id \<notin> set (map col_id tbl) \<and> u \<notin> set (map col_username tbl) \<and>
       e \<notin> set (map col_email tbl) \<and>
       tbl' = tbl @ [\<lparr>col_id = new_id, col_username = u, col_email = e, col_password = password p\<rparr>]"
  by (auto simp: insert_row_def split: option.splits if_splits)

lemma insert_row_accepted:
  "\<not> json_nul (username p) \<Longrightarrow> \<not> json_nul (email p) \<Longrightarrow> \<not> has_nul (password p) \<Longrightarrow>
   pg_text render (username p) = Some u \<Longrightarrow> pg_text render (email p) = Some e \<Longrightarrow>
   new_id \<notin> set (map col_id tbl) \<Longrightarrow>
   u \<notin> set (map col_username tbl) \<Longrightarrow> fits u \<Longrightarrow>
   e \<notin> set (map col_email tbl) \<Longrightarrow> fits e \<Longrightarrow>
     insert_row new_id render fits p tbl =
       Inr (tbl @ [\<lparr>col_id = new_id, col_username = u, col_email = e, col_password = password p\<rparr>])"
  by (simp add: insert_row_def)

lemma insert_row_unique:
  "insert_row new_id render fits p tbl = Inr tbl' \<Longrightarrow> unique_users tbl \<Longrightarrow> unique_users tbl'"
  by (drule insert_row_Inr) (auto simp: unique_users_def)

lemma insert_rows_unique:
  "insert_rows gen render fits i ps tbl = Inr tbl' \<Longrightarrow> unique_users tbl \<Longrightarrow> unique_users tbl'"
proof (induction ps arbitrary: i tbl)
  case Nil
  then show ?case by simp
next
  case (Cons p ps)
  then show ?case
    by (auto split: sum.splits dest: insert_row_unique)
qed

lemma users_insert_unique:
  "unique_users tbl \<Longrightarrow> unique_users (snd (users_insert gen render fits representation rows tbl))"
  by (auto simp: users_insert_def split: sum.splits dest: insert_rows_unique)

lemma users_insert_single:
  "users_insert gen render fits representation [p] tbl =
     (case insert_row (gen 0) render fits p tbl of
        Inl err \<Rightarrow> (Inr \<lparr>data = JNull, error = Some err\<rparr>, tbl)
      | Inr tbl' \<Rightarrow>
          (Inr \<lparr>data = (if representation then JArr (map row_json (drop (length tbl) tbl')) else JNull),
                error = None\<rparr>, tbl'))"
  by (simp add: users_insert_def split: sum.splits)

section \<open>The handler against the table\<close>

lemma store_register:
  "store (register bcrypt_hash insert_users req_body db) =
     (case bcrypt_hash (get_prop req_body ''password'') 10 of
        Inl exn \<Rightarrow> db
      | Inr h \<Rightarrow> snd (insert_users [payload_of req_body h] db))"
  by (auto simp: run_simps split: sum.splits option.splits prod.splits)

lemma register_unique:
  "unique_users tbl \<Longrightarrow>
     unique_users (store (register bcrypt_hash (users_insert gen render fits representation) req_body tbl))"
  by (simp add: store_register users_insert_unique split: sum.splits)

text \<open>The run against the table, by the outcome of the hash and of the one row.\<close>

lemma register_users_rejected:
  "bcrypt_hash (get_prop req_body ''password'') 10 = Inl exn \<Longrightarrow>
     register bcrypt_hash insert_users req_body db =
       \<lparr>calls = [HashCall (get_prop req_body ''password'') 10], sent = [], raised = Some exn,
        store = db\<rparr>"
  by (simp add: run_simps)

lemma register_users_violation:
  "bcrypt_hash (get_prop req_body ''password'') 10 = Inr h \<Longrightarrow>
   insert_row (gen 0) render fits (payload_of req_body h) tbl = Inl err \<Longrightarrow>
     register bcrypt_hash (users_insert gen render fits representation) req_body tbl =
       \<lparr>calls = [HashCall (get_prop req_body ''password'') 10, InsertCall [payload_of req_body h]],
        sent = [\<lparr>status = 400, body = JObj [(''error'', JStr (message err))]\<rparr>],
        raised = None, store = tbl\<rparr>"
  by (simp add: register_def Let_def users_insert_single)
     (simp add: payload_of_def)

lemma register_users_inserted:
  "bcrypt_hash (get_prop req_body ''password'') 10 = Inr h \<Longrightarrow>
   insert_row (gen 0) render fits (payload_of req_body h) tbl = Inr tbl' \<Longrightarrow>
     register bcrypt_hash (users_insert gen render fits representation) req_body tbl =
       \<lparr>calls = [HashCall (get_prop req_body ''password'') 10, InsertCall [payload_of req_body h]],
        sent = [\<lparr>status = 201,
                 body = (if representation then JArr (map row_json (drop (length tbl) tbl')) else JNull)\<rparr>],
        raised = None, store = tbl'\<rparr>"
  by (simp add: register_def Let_def users_insert_single)
     (simp add: payload_of_def)

lemma alice_username:
  "pg_text sample_render (get_prop alice ''username'') = Some ''alice''"
  by (simp add: pg_text_def get_prop_def alice_def)

lemma alice_registered:
  "store (register (sample_hash ''salt'') (users_insert (sample_ids ''a'') sample_render sample_fits True) alice [])
     = [alice_row]"
  by (simp add: store_register alice_hash alice_insert)

text \<open>
  C3. Against the users table: a request answered 201 leaves the table with
  exactly one more row; any other run leaves the table as it was; a username
  already in the table means no 201, an unchanged table and, when nothing
  rejects, the answer 400; and the handler calls the store at most once.
\<close>

theorem register_rows_written:
  fixes bcrypt_hash :: hash_fn and gen :: "nat \<Rightarrow> string" and render :: "jsval \<Rightarrow> string"
    and fits :: "string \<Rightarrow> bool" and representation :: bool and req_body :: body and tbl :: users
  defines "r \<equiv> register bcrypt_hash (users_insert gen render fits representation) req_body tbl"
  shows "(map status (sent r) = [201] \<longrightarrow> (\<exists>row. store r = tbl @ [row]))
    \<and> (map status (sent r) \<noteq> [201] \<longrightarrow> store r = tbl)
    \<and> ((\<exists>u. pg_text render (get_prop req_body ''username'') = Some u \<and> u \<in> set (map col_username tbl))
         \<longrightarrow> map status (sent r) \<noteq> [201] \<and> store r = tbl
             \<and> (raised r = None \<longrightarrow> map status (sent r) = [400]))
    \<and> length (filter is_insert (calls r)) \<le> 1"
proof (cases "bcrypt_hash (get_prop req_body ''password'') 10")
  case (Inl exn)
  then show ?thesis
    unfolding r_def by (simp add: register_users_rejected is_insert_def)
next
  case (Inr h)
  show ?thesis
  proof (cases "insert_row (gen 0) render fits (payload_of req_body h) tbl")
    case (Inl err)
    with Inr show ?thesis
      unfolding r_def by (simp add: register_users_violation is_insert_def)
  next
    case ok: (Inr tbl')
    from insert_row_Inr [OF ok] obtain row u where
      "tbl' = tbl @ [row]" "pg_text render (username (payload_of req_body h)) = Some u"
      "u \<notin> set (map col_username tbl)"
      by blast
    with Inr ok show ?thesis
      unfolding r_def by (auto simp: register_users_inserted is_insert_def payload_of_def)
  qed
qed

theorem register_rows_written_witness:
  "store (register (sample_hash ''salt'') (users_insert (sample_ids ''b'') sample_render sample_fits True) alice [alice_row])
     = [alice_row]"
proof -
  have "\<exists>u. pg_text sample_render (get_prop alice ''username'') = Some u
          \<and> u \<in> set (map col_username [alice_row])"
    by (simp add: alice_username alice_row_def)
  with register_rows_written [of "sample_hash ''salt''" "sample_ids ''b''" sample_render sample_fits True alice "[alice_row]"]
  show ?thesis by blast
qed

text \<open>
  C7. Every table registration can reach has no two rows with the same
  username, none with the same email, none with the same key. Each registration
  keeps this, and so does the store's insert on its own for any rows at all: the
  constraints of the table, which the handler never checks, are what holds it.
\<close>

theorem users_unique_invariant:
  "(reachable tbl \<longrightarrow> unique_users tbl) \<and>
   (unique_users tbl \<longrightarrow>
      unique_users (store (register bcrypt_hash (users_insert gen render fits representation) req_body tbl))) \<and>
   (unique_users tbl \<longrightarrow> unique_users (snd (users_insert gen render fits representation rows tbl)))"
proof -
  have "unique_users t" if "reachable t" for t
    using that
  proof (induction rule: reachable.induct)
    case initial
    show ?case by (simp add: unique_users_def)
  next
    case (registered tbl bcrypt_hash gen render fits representation req_body)
    then show ?case by (simp add: register_unique)
  qed
  then show ?thesis
    by (simp add: register_unique users_insert_unique)
qed

lemma bob_registered:
  "store (register (sample_hash ''salt'') (users_insert (sample_ids ''b'') sample_render sample_fits False)
            bob_empty [alice_row])
     = [alice_row, bob_row]"
  by (simp add: store_register users_insert_single insert_row_def pg_text_def payload_of_def
      get_prop_def json_nul_def has_nul_def sample_fits_def sample_hash_def bob_empty_def
      sample_ids_def alice_row_def bob_row_def)

lemma carol_refused:
  "register (sample_hash ''salt'') (users_insert (sample_ids ''c'') sample_render sample_fits True)
      carol [alice_row, bob_row]
     = \<lparr>calls = [HashCall (JStr ''pw'') 10,
                 InsertCall [\<lparr>username = JStr ''carol'', email = JStr ''alice@example.com'',
                              password = ''$2a$10$salt.wp''\<rparr>]],
        sent = [\<lparr>status = 400, body = JObj [(''error'', JStr (message (unique_violation ''users_email_key'')))]\<rparr>],
        raised = None, store = [alice_row, bob_row]\<rparr>"
  by (simp add: register_def Let_def users_insert_single insert_row_def pg_text_def
      get_prop_def json_nul_def has_nul_def sample_fits_def sample_hash_def carol_def
      sample_ids_def alice_row_def bob_row_def)

theorem users_unique_invariant_witness:
  "reachable [alice_row, bob_row] \<and> unique_users [alice_row, bob_row]
   \<and> map status (sent (register (sample_hash ''salt'')
        (users_insert (sample_ids ''c'') sample_render sample_fits True) carol [alice_row, bob_row])) = [400]
   \<and> store (register (sample_hash ''salt'')
        (users_insert (sample_ids ''c'') sample_render sample_fits True) carol [alice_row, bob_row])
       = [alice_row, bob_row]
   \<and> unique_users (store (register (sample_hash ''salt'')
        (users_insert (sample_ids ''c'') sample_render sample_fits True) carol [alice_row, bob_row]))"
proof -
  have "reachable (store (register (sample_hash ''salt'')
          (users_insert (sample_ids ''a'') sample_render sample_fits True) alice []))"
    by (rule reachable.registered [OF reachable.initial])
  then have one: "reachable [alice_row]"
    by (simp only: alice_registered)
  have "reachable (store (register (sample_hash ''salt'')
          (users_insert (sample_ids ''b'') sample_render sample_fits False) bob_empty [alice_row]))"
    by (rule reachable.registered [OF one])
  then have two: "reachable [alice_row, bob_row]"
    by (simp only: bob_registered)
  from users_unique_invariant [of "[alice_row, bob_row]" "sample_hash ''salt''" "sample_ids ''c''"
      sample_render sample_fits True carol] two
  have "unique_users [alice_row, bob_row]"
    and "unique_users (store (register (sample_hash ''salt'')
        (users_insert (sample_ids ''c'') sample_render sample_fits True) carol [alice_row, bob_row]))"
    by blast+
  with two show ?thesis
    by (simp add: carol_refused)
qed

section \<open>Rejections\<close>

text \<open>
  C4, as claimed, fails: a body without \<open>password\<close> makes \<open>bcrypt.hash\<close> reject;
  the handler's promise rejects with that exception and no response is sent.
\<close>

theorem register_uncaught_counterexample:
  "raised (register (sample_hash ''salt'') (users_insert (sample_ids ''a'') sample_render sample_fits True)
             (alice(''password'' := None)) [])
     = Some ''Illegal arguments: undefined, number''
   \<and> sent (register (sample_hash ''salt'') (users_insert (sample_ids ''a'') sample_render sample_fits True)
             (alice(''password'' := None)) []) = []"
  by (simp add: run_simps sample_hash_def alice_def)

text \<open>
  C4, amended. The handler's promise resolves exactly when the hash and the store
  call both resolve. A rejection of either is not caught: no response is sent,
  and after a rejected hash the store is not called. An error the store reports
  in its result is answered with 400 and the promise resolves.
\<close>

theorem register_failures:
  fixes bcrypt_hash :: hash_fn and insert_users :: "'db insert_fn" and req_body :: body and db :: 'db
  defines "r \<equiv> register bcrypt_hash insert_users req_body db"
    and "pw \<equiv> get_prop req_body ''password''"
  shows "(raised r = None \<longleftrightarrow>
            (\<exists>h result. bcrypt_hash pw 10 = Inr h
               \<and> fst (insert_users [payload_of req_body h] db) = Inr result))
    \<and> (raised r \<noteq> None \<longrightarrow> sent r = [])
    \<and> (\<forall>exn. bcrypt_hash pw 10 = Inl exn
          \<longrightarrow> raised r = Some exn \<and> calls r = [HashCall pw 10] \<and> store r = db)
    \<and> (\<forall>h exn. bcrypt_hash pw 10 = Inr h \<and> fst (insert_users [payload_of req_body h] db) = Inl exn
          \<longrightarrow> raised r = Some exn)
    \<and> (\<forall>h result err. bcrypt_hash pw 10 = Inr h
            \<and> fst (insert_users [payload_of req_body h] db) = Inr result \<and> error result = Some err
          \<longrightarrow> raised r = None
              \<and> sent r = [\<lparr>status = 400, body = JObj [(''error'', JStr (message err))]\<rparr>])"
  unfolding r_def pw_def
  by (auto simp: run_simps split: sum.splits prod.splits option.splits)

theorem register_failures_witness:
  "raised (register (sample_hash ''salt'') (users_insert (sample_ids ''b'') sample_render sample_fits True) alice [alice_row])
     = None"
proof -
  have "\<exists>h result. sample_hash ''salt'' (get_prop alice ''password'') 10 = Inr h
          \<and> fst (users_insert (sample_ids ''b'') sample_render sample_fits True [payload_of alice h] [alice_row])
              = Inr result"
    by (simp add: alice_hash alice_again)
  with register_failures [of "sample_hash ''salt''" "users_insert (sample_ids ''b'') sample_render sample_fits True"
      alice "[alice_row]"]
  show ?thesis by blast
qed

section \<open>What is hashed and what is stored\<close>

text \<open>
  Whenever the store is called, the hash of the body's \<open>password\<close> with cost 10
  was called before it and resolved, and what it resolved to is the \<open>password\<close> of
  the one row handed to the store.
\<close>

lemma register_hash_before_insert:
  "InsertCall rows \<in> set (calls (register bcrypt_hash insert_users req_body db)) \<Longrightarrow>
     \<exists>h. bcrypt_hash (get_prop req_body ''password'') 10 = Inr h
       \<and> rows = [payload_of req_body h]
       \<and> calls (register bcrypt_hash insert_users req_body db)
           = [HashCall (get_prop req_body ''password'') 10, InsertCall rows]"
  by (auto simp: run_simps split: sum.splits prod.splits option.splits)

text \<open>
  C8, as claimed, fails: a body without \<open>password\<close> is not passed through to
  persistence. The hash is called with \<open>undefined\<close> and rejects; the store is never
  called and the table stays as it was.
\<close>

theorem register_absent_password_counterexample:
  "calls (register (sample_hash ''salt'') (users_insert (sample_ids ''a'') sample_render sample_fits True)
            (alice(''password'' := None)) [])
     = [HashCall JUndefined 10]
   \<and> store (register (sample_hash ''salt'') (users_insert (sample_ids ''a'') sample_render sample_fits True)
            (alice(''password'' := None)) []) = []"
  by (simp add: run_simps sample_hash_def alice_def)

text \<open>
  C8, amended. The handler checks nothing about the three fields. Every run starts
  by hashing the body's \<open>password\<close> as it is (\<open>undefined\<close> when absent). When the
  hash rejects, that is the whole run: the store is not called and nothing is
  sent. When the hash resolves, the store is called with the body's \<open>username\<close> and
  \<open>email\<close> as they are. The handler sends no response before the store was
  called. With the empty string as password, the hash of the empty string is what
  goes to the store, and when the table refuses nothing of the row it is stored
  and the answer is 201.
\<close>

theorem register_no_validation:
  fixes bcrypt_hash :: hash_fn and insert_users :: "'db insert_fn" and req_body :: body and db :: 'db
    and gen :: "nat \<Rightarrow> string" and render :: "jsval \<Rightarrow> string"
    and fits :: "string \<Rightarrow> bool" and representation :: bool and tbl :: users
  defines "r \<equiv> register bcrypt_hash insert_users req_body db"
    and "t \<equiv> register bcrypt_hash (users_insert gen render fits representation) req_body tbl"
  shows "(\<exists>rest. calls r = HashCall (get_prop req_body ''password'') 10 # rest)
    \<and> (\<forall>exn. bcrypt_hash (get_prop req_body ''password'') 10 = Inl exn \<longrightarrow>
          calls r = [HashCall (get_prop req_body ''password'') 10] \<and> sent r = [] \<and> store r = db)
    \<and> (\<forall>h. bcrypt_hash (get_prop req_body ''password'') 10 = Inr h \<longrightarrow>
          calls r = [HashCall (get_prop req_body ''password'') 10,
                     InsertCall [\<lparr>username = get_prop req_body ''username'',
                                  email = get_prop req_body ''email'', password = h\<rparr>]])
    \<and> (sent r \<noteq> [] \<longrightarrow> (\<exists>rows. InsertCall rows \<in> set (calls r)))
    \<and> (\<forall>h u e. req_body ''password'' = Some (JStr '''') \<and> bcrypt_hash (JStr '''') 10 = Inr h
            \<and> \<not> has_nul h
            \<and> \<not> json_nul (get_prop req_body ''username'')
            \<and> \<not> json_nul (get_prop req_body ''email'')
            \<and> pg_text render (get_prop req_body ''username'') = Some u
            \<and> pg_text render (get_prop req_body ''email'') = Some e
            \<and> gen 0 \<notin> set (map col_id tbl)
            \<and> u \<notin> set (map col_username tbl) \<and> fits u
            \<and> e \<notin> set (map col_email tbl) \<and> fits e
          \<longrightarrow> calls t = [HashCall (JStr '''') 10, InsertCall [payload_of req_body h]]
              \<and> map status (sent t) = [201]
              \<and> store t = tbl @ [\<lparr>col_id = gen 0, col_username = u, col_email = e, col_password = h\<rparr>])"
proof -
  have a: "\<exists>rest. calls r = HashCall (get_prop req_body ''password'') 10 # rest"
    unfolding r_def by (auto simp: register_def Let_def split: sum.splits prod.splits option.splits)
  have a': "\<forall>exn. bcrypt_hash (get_prop req_body ''password'') 10 = Inl exn \<longrightarrow>
          calls r = [HashCall (get_prop req_body ''password'') 10] \<and> sent r = [] \<and> store r = db"
    unfolding r_def by (simp add: register_users_rejected)
  have b: "\<forall>h. bcrypt_hash (get_prop req_body ''password'') 10 = Inr h \<longrightarrow>
          calls r = [HashCall (get_prop req_body ''password'') 10,
                     InsertCall [\<lparr>username = get_prop req_body ''username'',
                                  email = get_prop req_body ''email'', password = h\<rparr>]]"
    unfolding r_def by (auto simp: register_def Let_def split: sum.splits prod.splits option.splits)
  have c: "sent r \<noteq> [] \<longrightarrow> (\<exists>rows. InsertCall rows \<in> set (calls r))"
    unfolding r_def by (auto simp: register_def Let_def split: sum.splits prod.splits option.splits)
  have d: "calls t = [HashCall (JStr '''') 10, InsertCall [payload_of req_body h]]
              \<and> map status (sent t) = [201]
              \<and> store t = tbl @ [\<lparr>col_id = gen 0, col_username = u, col_email = e, col_password = h\<rparr>]"
    if "req_body ''password'' = Some (JStr '''')" "bcrypt_hash (JStr '''') 10 = Inr h"
      "\<not> has_nul h"
      "\<not> json_nul (get_prop req_body ''username'')"
      "\<not> json_nul (get_prop req_body ''email'')"
      "pg_text render (get_prop req_body ''username'') = Some u"
      "pg_text render (get_prop req_body ''email'') = Some e"
      "gen 0 \<notin> set (map col_id tbl)" "u \<notin> set (map col_username tbl)" "fits u"
      "e \<notin> set (map col_email tbl)" "fits e" for h u e
  proof -
    have pw: "get_prop req_body ''password'' = JStr ''''"
      using that(1) by (simp add: get_prop_def)
    have "insert_row (gen 0) render fits (payload_of req_body h) tbl
        = Inr (tbl @ [\<lparr>col_id = gen 0, col_username = u, col_email = e,
                       col_password = password (payload_of req_body h)\<rparr>])"
      using that by (intro insert_row_accepted) (simp_all add: payload_of_def)
    then have "insert_row (gen 0) render fits (payload_of req_body h) tbl
        = Inr (tbl @ [\<lparr>col_id = gen 0, col_username = u, col_email = e, col_password = h\<rparr>])"
      by (simp add: payload_of_def)
    with that(2) pw show ?thesis
      unfolding t_def by (simp add: register_users_inserted)
  qed
  from a a' b c d show ?thesis by blast
qed

theorem register_no_validation_witness:
  "store (register (sample_hash ''salt'') (users_insert (sample_ids ''b'') sample_render sample_fits False)
            bob_empty [alice_row])
     = [alice_row, \<lparr>col_id = ''b'', col_username = ''bob'', col_email = ''bob@example.com'',
                     col_password = ''$2a$10$salt.''\<rparr>]"
proof -
  have "bob_empty ''password'' = Some (JStr '''') \<and> sample_hash ''salt'' (JStr '''') 10 = Inr ''$2a$10$salt.''
      \<and> \<not> has_nul ''$2a$10$salt.''
      \<and> \<not> json_nul (get_prop bob_empty ''username'')
      \<and> \<not> json_nul (get_prop bob_empty ''email'')
      \<and> pg_text sample_render (get_prop bob_empty ''username'') = Some ''bob''
      \<and> pg_text sample_render (get_prop bob_empty ''email'') = Some ''bob@example.com''
      \<and> sample_ids ''b'' 0 \<notin> set (map col_id [alice_row])
      \<and> ''bob'' \<notin> set (map col_username [alice_row]) \<and> sample_fits ''bob''
      \<and> ''bob@example.com'' \<notin> set (map col_email [alice_row]) \<and> sample_fits ''bob@example.com''"
    by (simp add: bob_empty_def sample_hash_def pg_text_def get_prop_def sample_ids_def alice_row_def
        json_nul_def has_nul_def sample_fits_def)
  with register_no_validation [where bcrypt_hash = "sample_hash ''salt''"
      and insert_users = "users_insert (sample_ids ''b'') sample_render sample_fits False"
      and req_body = bob_empty and db = "[alice_row]" and gen = "sample_ids ''b''"
      and render = sample_render and fits = sample_fits and representation = False
      and tbl = "[alice_row]"]
  show ?thesis
    by (simp add: sample_ids_def)
qed

end
